theory Spec2Isabelle
  imports Complex_Main
begin

section \<open>Cement blend cost optimiser (cement\_optimizer.py)\<close>

text \<open>
  The program is one script. Its core is \<^verbatim>\<open>optimize_cost\<close>, which sets up a linear
  program (one equality row of ones, right-hand side 1, one box bound per material) and
  hands it to \<^verbatim>\<open>scipy.optimize.linprog\<close>; \<^verbatim>\<open>calculate_cost\<close>, a dot product;
  and the top-level code that calls both and builds the comparison figures.

  Conventions of the embedding:
  \<^item> Python floats are modelled as \<^typ>\<open>real\<close>: arithmetic is exact, rounding is not
    modelled.
  \<^item> A raised exception is the \<open>Inl\<close> branch of a sum type.
  \<^item> The module-level list \<^verbatim>\<open>materials\<close> is read by \<^verbatim>\<open>optimize_cost\<close> as a
    global; in the embedding it is an explicit argument \<open>mats\<close>. The program's own
    function is the instance at the constant \<open>materials\<close>, a list of seven entries;
    what is stated for every \<open>mats\<close> holds for it.
  \<^item> \<^verbatim>\<open>linprog\<close> is library code, not code of this program. It is an explicit
    argument of every function that calls it, and what is assumed of it is the
    predicate \<open>linprog_contract\<close> below.
\<close>

subsection \<open>Data\<close>

datatype py_error = ValueError | TypeError

text \<open>The fields of scipy's \<^verbatim>\<open>OptimizeResult\<close> that the program reads
  (\<^verbatim>\<open>res.x\<close>, \<^verbatim>\<open>res.fun\<close>, \<^verbatim>\<open>res.success\<close>) and the status code behind
  \<^verbatim>\<open>success\<close>. \<^verbatim>\<open>x\<close> and \<^verbatim>\<open>fun\<close> may be \<^verbatim>\<open>None\<close>.\<close>

record OptimizeResult =
  res_x :: "real list option"
  res_fun :: "real option"
  res_success :: bool
  res_status :: nat

text \<open>\<^verbatim>\<open>linprog(c, A_eq=A_eq, b_eq=b_eq, bounds=bounds, method='highs')\<close>.\<close>

type_synonym linprog =
  "real list \<Rightarrow> real list list \<Rightarrow> real list \<Rightarrow> (real \<times> real) list \<Rightarrow> py_error + OptimizeResult"

text \<open>Lines 29--31: the module's initial data. The material names are Chinese; they are
  given as their UTF-8 bytes.\<close>

definition materials :: "string list" where
  "materials =
    [[CHR 0xE7, CHR 0x86, CHR 0x9F, CHR 0xE6, CHR 0x96, CHR 0x99],
     [CHR 0xE7, CHR 0xB2, CHR 0x89, CHR 0xE7, CHR 0x85, CHR 0xA4, CHR 0xE7, CHR 0x81, CHR 0xB0],
     [CHR 0xE7, CHR 0x9F, CHR 0xB3, CHR 0xE7, CHR 0x81, CHR 0xB0, CHR 0xE7, CHR 0x9F, CHR 0xB3],
     [CHR 0xE7, CHR 0x81, CHR 0xAB, CHR 0xE5, CHR 0xB1, CHR 0xB1, CHR 0xE7, CHR 0x81, CHR 0xB0],
     [CHR 0xE7, CHR 0x87, CHR 0x83, CHR 0xE7, CHR 0x85, CHR 0xA4, CHR 0xE7, CHR 0x82, CHR 0x89,
      CHR 0xE6, CHR 0xB8, CHR 0xA3],
     [CHR 0xE7, CHR 0xA3, CHR 0xB7, CHR 0xE7, CHR 0x9F, CHR 0xB3, CHR 0xE8, CHR 0x86, CHR 0x8F],
     [CHR 0xE7, CHR 0x9F, CHR 0xBF, CHR 0xE7, CHR 0xB2, CHR 0x89]]"

definition prices_july :: "real list" where
  "prices_july = [225.60, 19.07, 39.31, 34.46, 14.51, 0.09, 108.06]"

definition ratios_july :: "real list" where
  "ratios_july = [44.10, 22.70, 11.80, 0.00, 7.30, 5.00, 9.10]"

subsection \<open>numpy operations the program uses\<close>

text \<open>\<^verbatim>\<open>np.dot\<close> of two one-dimensional arrays: the inner product; it raises
  \<^verbatim>\<open>ValueError\<close> (shapes not aligned) when the lengths differ.\<close>

definition np_dot :: "real list \<Rightarrow> real list \<Rightarrow> py_error + real" where
  "np_dot a b =
     (if length a = length b then Inr (sum_list (map2 (*) a b)) else Inl ValueError)"

text \<open>\<^verbatim>\<open>a * b\<close> on one-dimensional arrays: elementwise, a length-one operand is
  broadcast, any other length mismatch raises \<^verbatim>\<open>ValueError\<close>.\<close>

definition np_mul :: "real list \<Rightarrow> real list \<Rightarrow> py_error + real list" where
  "np_mul a b =
     (if length a = length b then Inr (map2 (*) a b)
      else if length a = 1 then Inr (map (\<lambda>y. hd a * y) b)
      else if length b = 1 then Inr (map (\<lambda>x. x * hd b) a)
      else Inl ValueError)"

subsection \<open>optimize\_cost and calculate\_cost\<close>

text \<open>Lines 77--94. The equality row has \<^verbatim>\<open>len(materials)\<close> columns: its length
  comes from the module's list, not from the arguments. \<^verbatim>\<open>zip\<close> stops at the shorter
  list. On success the function returns \<^verbatim>\<open>res.x, res.fun\<close> as they are; otherwise
  \<^verbatim>\<open>None, None\<close>. An exception of \<^verbatim>\<open>linprog\<close> is not caught.\<close>

definition A_eq :: "'m list \<Rightarrow> real list list" where
  "A_eq mats = [replicate (length mats) 1]"

definition b_eq :: "real list" where
  "b_eq = [1]"

definition optimize_cost ::
  "linprog \<Rightarrow> 'm list \<Rightarrow> real list \<Rightarrow> real list \<Rightarrow> real list
     \<Rightarrow> py_error + (real list option \<times> real option)" where
  "optimize_cost lp mats prices min_ratios max_ratios =
     (let c = prices;
          bounds = zip min_ratios max_ratios
      in case lp c (A_eq mats) b_eq bounds of
           Inl e \<Rightarrow> Inl e
         | Inr res \<Rightarrow>
             if res_success res then Inr (res_x res, res_fun res)
             else Inr (None, None))"

text \<open>Lines 97--98.\<close>

definition calculate_cost :: "real list \<Rightarrow> real list \<Rightarrow> py_error + real" where
  "calculate_cost ratios prices = np_dot ratios prices"

subsection \<open>The top-level code\<close>

text \<open>What the sidebar widgets return (lines 38--74): one price, one minimum and one
  maximum (in percent) per material index, and the two quality sliders.\<close>

record sidebar =
  price_input :: "nat \<Rightarrow> real"
  min_input :: "nat \<Rightarrow> real"
  max_input :: "nat \<Rightarrow> real"
  strength_target :: real
  fineness_target :: real

text \<open>Lines 40--69: the three lists are built by one loop over \<^verbatim>\<open>materials\<close>; the
  bounds are divided by 100.\<close>

definition prices_of :: "'m list \<Rightarrow> sidebar \<Rightarrow> real list" where
  "prices_of mats ui = map (price_input ui) [0..<length mats]"

definition min_ratios_of :: "'m list \<Rightarrow> sidebar \<Rightarrow> real list" where
  "min_ratios_of mats ui = map (\<lambda>i. min_input ui i / 100) [0..<length mats]"

definition max_ratios_of :: "'m list \<Rightarrow> sidebar \<Rightarrow> real list" where
  "max_ratios_of mats ui = map (\<lambda>i. max_input ui i / 100) [0..<length mats]"

text \<open>The figures of the result section: the three metrics (lines 108--116) and the two
  per-material cost breakdowns (lines 137--138).\<close>

record comparison =
  current_cost :: real
  min_cost :: real
  savings :: real
  current_cost_breakdown :: "real list"
  optimal_cost_breakdown :: "real list"

text \<open>Lines 108--116 and 137--138, for a reference recipe in percent, an optimal vector
  and the optimal cost returned by \<^verbatim>\<open>optimize_cost\<close>. The optimal cost is the solver's
  \<^verbatim>\<open>res.fun\<close>, passed through; it is not recomputed. Formatting it (line 114) when it
  is \<^verbatim>\<open>None\<close> raises \<^verbatim>\<open>TypeError\<close>. The figures are kept as computed, not rounded
  to two decimals as on the page; charts and the table are not modelled.\<close>

definition compare_costs ::
  "real list \<Rightarrow> real list \<Rightarrow> real option \<Rightarrow> real list \<Rightarrow> py_error + comparison" where
  "compare_costs ratios_ref optimal_ratios mc_opt prices =
     (case calculate_cost (map (\<lambda>r. r / 100) ratios_ref) prices of
        Inl e \<Rightarrow> Inl e
      | Inr cur \<Rightarrow>
          (case mc_opt of
             None \<Rightarrow> Inl TypeError
           | Some mc \<Rightarrow>
               (case np_mul (map (\<lambda>r. r / 100) ratios_ref) prices of
                  Inl e \<Rightarrow> Inl e
                | Inr cb \<Rightarrow>
                    (case np_mul optimal_ratios prices of
                       Inl e \<Rightarrow> Inl e
                     | Inr ob \<Rightarrow>
                         Inr \<lparr>current_cost = cur, min_cost = mc, savings = cur - mc,
                              current_cost_breakdown = cb, optimal_cost_breakdown = ob\<rparr>))))"

text \<open>What the page shows: the error message of line 105, or the comparison.\<close>

datatype display = Optimization_failed | Comparison_shown comparison

text \<open>Lines 104--159: the test \<^verbatim>\<open>optimal_ratios is None\<close> decides between the two.\<close>

definition show_results ::
  "real list \<Rightarrow> real list \<Rightarrow> real list option \<times> real option \<Rightarrow> py_error + display" where
  "show_results ratios_ref prices r =
     (case fst r of
        None \<Rightarrow> Inr Optimization_failed
      | Some optimal_ratios \<Rightarrow>
          (case compare_costs ratios_ref optimal_ratios (snd r) prices of
             Inl e \<Rightarrow> Inl e
           | Inr cmp \<Rightarrow> Inr (Comparison_shown cmp)))"

text \<open>Line 101: the one call of \<^verbatim>\<open>optimize_cost\<close>. The sliders' values are not among
  its arguments.\<close>

definition run_optimization ::
  "linprog \<Rightarrow> 'm list \<Rightarrow> sidebar \<Rightarrow> py_error + (real list option \<times> real option)" where
  "run_optimization lp mats ui =
     optimize_cost lp mats (prices_of mats ui) (min_ratios_of mats ui) (max_ratios_of mats ui)"

text \<open>Lines 101--159: one run of the script for given widget values.\<close>

definition script :: "linprog \<Rightarrow> 'm list \<Rightarrow> real list \<Rightarrow> sidebar \<Rightarrow> py_error + display" where
  "script lp mats ratios_ref ui =
     (case run_optimization lp mats ui of
        Inl e \<Rightarrow> Inl e
      | Inr r \<Rightarrow> show_results ratios_ref (prices_of mats ui) r)"

subsection \<open>The linear program and what is assumed of linprog\<close>

definition dot :: "real list \<Rightarrow> real list \<Rightarrow> real" where
  "dot a b = sum_list (map2 (*) a b)"

text \<open>A point of the feasible region of \<^verbatim>\<open>linprog\<close>'s problem: every equality row holds
  and every variable lies within its pair of bounds.\<close>

definition lp_feasible ::
  "real list list \<Rightarrow> real list \<Rightarrow> (real \<times> real) list \<Rightarrow> real list \<Rightarrow> bool" where
  "lp_feasible A b bounds y \<longleftrightarrow>
     list_all2 (\<lambda>row r. dot row y = r) A b \<and>
     list_all2 (\<lambda>(l, u) v. l \<le> v \<and> v \<le> u) bounds y"

definition lp_optimal ::
  "real list \<Rightarrow> real list list \<Rightarrow> real list \<Rightarrow> (real \<times> real) list \<Rightarrow> real list \<Rightarrow> bool" where
  "lp_optimal c A b bounds y \<longleftrightarrow>
     lp_feasible A b bounds y \<and> (\<forall>z. lp_feasible A b bounds z \<longrightarrow> dot c y \<le> dot c z)"

text \<open>
  Modelled from the spec: \<^verbatim>\<open>scipy.optimize.linprog\<close> (method HiGHS) is library code
  and not part of the program's source. The predicate states, for one call, what the
  specification says of the solver (section 4.1: it reports success, with the optimal
  vector and the minimal cost \<open>c* = \<Sum> cost[i] x*[i]\<close>, or it reports failure), in
  exact arithmetic:
  \<^item> when a row of \<^verbatim>\<open>A_eq\<close> has not as many columns as \<^verbatim>\<open>c\<close> has entries, the call
    raises \<^verbatim>\<open>ValueError\<close> (scipy's input validation);
  \<^item> otherwise, when the shapes agree, the call returns a result; if the result reports
    success, its \<^verbatim>\<open>x\<close> is an optimal point and its \<^verbatim>\<open>fun\<close> is the objective there.
  Nothing is assumed for an empty \<^verbatim>\<open>c\<close>, nor about the status code of a failure, nor
  that the solver succeeds when an optimum exists: it may stop at an iteration limit or
  for numerical trouble, as section 4.1 and section 7 allow.
\<close>

definition linprog_contract ::
  "linprog \<Rightarrow> real list \<Rightarrow> real list list \<Rightarrow> real list \<Rightarrow> (real \<times> real) list \<Rightarrow> bool" where
  "linprog_contract lp c A b bounds \<longleftrightarrow>
     (c \<noteq> [] \<longrightarrow>
       (if list_ex (\<lambda>row. length row \<noteq> length c) A then lp c A b bounds = Inl ValueError
        else (length b = length A \<and> length bounds = length c \<longrightarrow>
          (\<exists>res. lp c A b bounds = Inr res \<and>
             (res_success res \<longrightarrow>
                (\<exists>xs. res_x res = Some xs \<and> res_fun res = Some (dot c xs) \<and>
                      lp_optimal c A b bounds xs))))))"

subsection \<open>The properties the claims speak of\<close>

text \<open>A blend within the bounds: one proportion per material, summing to one, each between
  its minimum and its maximum.\<close>

definition feasible_blend :: "real list \<Rightarrow> real list \<Rightarrow> real list \<Rightarrow> bool" where
  "feasible_blend min_ratios max_ratios y \<longleftrightarrow>
     length y = length min_ratios \<and> (\<Sum>i<length y. y ! i) = 1 \<and>
     (\<forall>i<length y. min_ratios ! i \<le> y ! i \<and> y ! i \<le> max_ratios ! i)"

definition total_cost :: "real list \<Rightarrow> real list \<Rightarrow> real" where
  "total_cost prices y = (\<Sum>i<length prices. prices ! i * y ! i)"

text \<open>The inputs \<^verbatim>\<open>optimize_cost\<close> is meant for: at least one material, and one price, one
  minimum and one maximum for each.\<close>

definition same_lengths :: "'m list \<Rightarrow> real list \<Rightarrow> real list \<Rightarrow> real list \<Rightarrow> bool" where
  "same_lengths mats prices min_ratios max_ratios \<longleftrightarrow>
     mats \<noteq> [] \<and> length prices = length mats \<and>
     length min_ratios = length mats \<and> length max_ratios = length mats"

subsection \<open>An exact solution by threshold filling\<close>

text \<open>
  Not part of the program: a direct construction of an optimal blend, used to show that
  an optimum exists whenever the bounds admit a blend, and as a concrete solver that
  meets \<open>linprog_contract\<close> on the problems \<^verbatim>\<open>optimize_cost\<close> poses.

  An item is a material's cost with its lower and upper bound. For a threshold cost
  \<open>lam\<close>, every material cheaper than \<open>lam\<close> is taken at its upper bound, every dearer
  one at its lower bound, and the materials that cost exactly \<open>lam\<close> share the rest in
  list order.
\<close>

type_synonym item = "real \<times> real \<times> real"

definition in_box :: "item list \<Rightarrow> real list \<Rightarrow> bool" where
  "in_box its y = list_all2 (\<lambda>(c, l, u) v. l \<le> v \<and> v \<le> u) its y"

definition cost_of :: "item list \<Rightarrow> real list \<Rightarrow> real" where
  "cost_of its y = sum_list (map2 (\<lambda>(c, l, u) v. c * v) its y)"

definition split_at :: "real \<Rightarrow> item list \<Rightarrow> real list \<Rightarrow> bool" where
  "split_at lam its x =
     list_all2 (\<lambda>(c, l, u) v. (c < lam \<longrightarrow> v = u) \<and> (lam < c \<longrightarrow> v = l)) its x"

definition below :: "real \<Rightarrow> item list \<Rightarrow> real" where
  "below lam its = sum_list (map (\<lambda>(c, l, u). if c < lam then u else l) its)"

definition upto_level :: "real \<Rightarrow> item list \<Rightarrow> real" where
  "upto_level lam its = sum_list (map (\<lambda>(c, l, u). if c \<le> lam then u else l) its)"

definition tied :: "real \<Rightarrow> item list \<Rightarrow> real" where
  "tied lam its = sum_list (map (\<lambda>(c, l, u). if c = lam then u - l else 0) its)"

fun fill :: "real \<Rightarrow> real \<Rightarrow> item list \<Rightarrow> real list" where
  "fill lam r [] = []"
| "fill lam r ((c, l, u) # its) =
     (if c < lam then u # fill lam r its
      else if lam < c then l # fill lam r its
      else (l + min (u - l) r) # fill lam (r - min (u - l) r) its)"

text \<open>The threshold is the least cost at which taking every material up to that cost at
  its upper bound reaches a full blend.\<close>

definition threshold :: "item list \<Rightarrow> real" where
  "threshold its = min_list (filter (\<lambda>lam. 1 \<le> upto_level lam its) (map fst its))"

definition blend :: "item list \<Rightarrow> real list" where
  "blend its = (let lam = threshold its in fill lam (1 - below lam its) its)"

definition wf_items :: "item list \<Rightarrow> bool" where
  "wf_items its = list_all (\<lambda>(c, l, u). l \<le> u) its"

text \<open>A solver for the one kind of problem the program poses (a single equality row of
  ones with right-hand side 1): \<^verbatim>\<open>ValueError\<close> on a row of the wrong length, the
  threshold blend when the bounds admit a blend, and failure with status 2 otherwise.\<close>

definition blend_linprog :: linprog where
  "blend_linprog c A b bounds =
     (if list_ex (\<lambda>row. length row \<noteq> length c) A then Inl ValueError
      else if A = [replicate (length c) 1] \<and> b = [1] \<and> length bounds = length c \<and>
              wf_items (zip c bounds) \<and>
              sum_list (map fst bounds) \<le> 1 \<and> 1 \<le> sum_list (map snd bounds)
      then Inr \<lparr>res_x = Some (blend (zip c bounds)),
                res_fun = Some (dot c (blend (zip c bounds))),
                res_success = True, res_status = 0\<rparr>
      else Inr \<lparr>res_x = None, res_fun = None, res_success = False, res_status = 2\<rparr>)"

text \<open>Two solvers that always fail, for different reasons: one reports the problem
  infeasible (status 2) and gives no vector; the other stops at its iteration limit
  (status 1) and leaves its last iterate, here the lower bounds, in \<^verbatim>\<open>x\<close>.\<close>

definition failing_infeasible :: linprog where
  "failing_infeasible c A b bounds =
     Inr \<lparr>res_x = None, res_fun = None, res_success = False, res_status = 2\<rparr>"

definition failing_iteration_limit :: linprog where
  "failing_iteration_limit c A b bounds =
     Inr \<lparr>res_x = Some (map fst bounds), res_fun = Some (dot c (map fst bounds)),
          res_success = False, res_status = 1\<rparr>"

text \<open>Widget values for a two-material example: prices 10 and 2, every minimum 0 and every
  maximum 100 percent; and the same with other slider positions.\<close>

definition example_ui :: sidebar where
  "example_ui =
     \<lparr>price_input = (\<lambda>i. if i = 0 then 10 else 2), min_input = (\<lambda>i. 0),
      max_input = (\<lambda>i. 100), strength_target = 15, fineness_target = 20\<rparr>"

definition example_ui' :: sidebar where
  "example_ui' = example_ui\<lparr>strength_target := 10, fineness_target := 30\<rparr>"

text \<open>The widgets' initial values (lines 43, 56 and 63): the July prices, and the July
  recipe five points down and up, kept within 0 and 100.\<close>

definition default_ui :: sidebar where
  "default_ui =
     \<lparr>price_input = (\<lambda>i. prices_july ! i),
      min_input = (\<lambda>i. max 0 (ratios_july ! i - 5)),
      max_input = (\<lambda>i. min 100 (ratios_july ! i + 5)),
      strength_target = 15, fineness_target = 20\<rparr>"

section \<open>Lemmas\<close>

subsection \<open>The threshold blend is feasible and optimal\<close>

lemma scalar_step:
  fixes c lam l u x y :: real
  assumes "l \<le> y" "y \<le> u" "c < lam \<longrightarrow> x = u" "lam < c \<longrightarrow> x = l"
  shows "(c - lam) * x \<le> (c - lam) * y"
proof -
  consider "c < lam" | "lam < c" | "c = lam" by linarith
  then show ?thesis
  proof cases
    case 1
    with assms have "y \<le> x" by simp
    with 1 show ?thesis by (simp add: mult_left_mono_neg)
  next
    case 2
    with assms have "x \<le> y" by simp
    with 2 show ?thesis by (simp add: mult_left_mono)
  next
    case 3
    then show ?thesis by simp
  qed
qed

lemma certificate:
  "in_box its y \<Longrightarrow> split_at lam its x \<Longrightarrow>
   cost_of its x - lam * sum_list x \<le> cost_of its y - lam * sum_list y"
proof (induction its arbitrary: x y)
  case Nil
  then show ?case by (simp add: in_box_def split_at_def cost_of_def)
next
  case (Cons it its)
  obtain c l u where it: "it = (c, l, u)" by (cases it) auto
  from Cons.prems obtain y0 ys where y: "y = y0 # ys" "l \<le> y0" "y0 \<le> u" "in_box its ys"
    by (auto simp: in_box_def it list_all2_Cons1)
  from Cons.prems obtain x0 xs where x: "x = x0 # xs" "c < lam \<longrightarrow> x0 = u" "lam < c \<longrightarrow> x0 = l"
      "split_at lam its xs"
    by (auto simp: split_at_def it list_all2_Cons1)
  have "(c - lam) * x0 \<le> (c - lam) * y0"
    using y x by (intro scalar_step) auto
  moreover have "cost_of its xs - lam * sum_list xs \<le> cost_of its ys - lam * sum_list ys"
    using Cons.IH y x by simp
  ultimately show ?case
    by (simp add: cost_of_def it x y algebra_simps)
qed

lemma fill_length: "length (fill lam r its) = length its"
  by (induction lam r its rule: fill.induct) auto

lemma fill_split: "split_at lam its (fill lam r its)"
  by (induction lam r its rule: fill.induct) (auto simp: split_at_def)

lemma fill_box: "0 \<le> r \<Longrightarrow> wf_items its \<Longrightarrow> in_box its (fill lam r its)"
  by (induction lam r its rule: fill.induct) (auto simp: in_box_def wf_items_def min_def)

lemma tied_nonneg: "wf_items its \<Longrightarrow> 0 \<le> tied lam its"
  by (induction its) (auto simp: tied_def wf_items_def)

lemma fill_sum:
  "0 \<le> r \<Longrightarrow> wf_items its \<Longrightarrow> sum_list (fill lam r its) = below lam its + min r (tied lam its)"
proof (induction lam r its rule: fill.induct)
  case (1 lam r)
  then show ?case by (simp add: below_def tied_def)
next
  case (2 lam r c l u its)
  have wf: "wf_items its" "l \<le> u" using 2 by (auto simp: wf_items_def)
  have tn: "0 \<le> tied lam its" using wf by (simp add: tied_nonneg)
  show ?case
  proof (cases "c = lam")
    case False
    then show ?thesis using 2 wf by (auto simp: below_def tied_def)
  next
    case True
    have ih: "sum_list (fill lam (r - min (u - l) r) its) = below lam its + min (r - min (u - l) r) (tied lam its)"
      using 2 True wf by (auto simp: min_def)
    show ?thesis using True ih wf tn 2(4)
      by (auto simp: below_def tied_def min_def)
  qed
qed

lemma upto_below: "upto_level lam its = below lam its + tied lam its"
  by (induction its) (auto simp: upto_level_def below_def tied_def)


lemma upto_top:
  assumes "\<forall>it\<in>set its. fst it \<le> m"
  shows "upto_level m its = sum_list (map (\<lambda>(c, l, u). u) its)"
  using assms by (induction its) (auto simp: upto_level_def)

lemma below_bottom:
  assumes "\<forall>it\<in>set its. \<not> fst it < lam"
  shows "below lam its = sum_list (map (\<lambda>(c, l, u). l) its)"
  using assms by (induction its) (auto simp: below_def)

lemma below_eq_upto:
  assumes "\<forall>it\<in>set its. (fst it < lam) = (fst it \<le> m)"
  shows "below lam its = upto_level m its"
  using assms by (induction its) (auto simp: below_def upto_level_def)

lemma candidates_nonempty:
  assumes "its \<noteq> []" and "1 \<le> sum_list (map (\<lambda>(c, l, u). u) its)"
  shows "filter (\<lambda>lam. 1 \<le> upto_level lam its) (map fst its) \<noteq> []"
proof -
  let ?cs = "map fst its"
  let ?m = "Max (set ?cs)"
  have fin: "finite (set ?cs)" and ne: "set ?cs \<noteq> {}" using assms by auto
  have mem: "?m \<in> set ?cs" using Max_in [OF fin ne] .
  have "\<forall>it\<in>set its. fst it \<le> ?m" using fin by (auto intro: Max_ge)
  then have "upto_level ?m its = sum_list (map (\<lambda>(c, l, u). u) its)" by (rule upto_top)
  with assms have "1 \<le> upto_level ?m its" by simp
  with mem have "?m \<in> set (filter (\<lambda>lam. 1 \<le> upto_level lam its) ?cs)" by simp
  then show ?thesis by (metis empty_iff empty_set)
qed

lemma threshold_props:
  assumes "its \<noteq> []" and "1 \<le> sum_list (map (\<lambda>(c, l, u). u) its)"
  shows "1 \<le> upto_level (threshold its) its"
    and "threshold its \<in> fst ` set its"
    and "\<And>c. c \<in> fst ` set its \<Longrightarrow> 1 \<le> upto_level c its \<Longrightarrow> threshold its \<le> c"
proof -
  let ?S = "filter (\<lambda>lam. 1 \<le> upto_level lam its) (map fst its)"
  have ne: "?S \<noteq> []" using assms by (rule candidates_nonempty)
  have eq: "threshold its = Min (set ?S)" unfolding threshold_def using ne by (rule min_list_Min)
  have "set ?S \<noteq> {}" using ne by (simp only: set_empty not_False_eq_True)
  then have "Min (set ?S) \<in> set ?S" by (intro Min_in) simp_all
  then show "1 \<le> upto_level (threshold its) its" "threshold its \<in> fst ` set its"
    unfolding eq by auto
  fix c assume "c \<in> fst ` set its" "1 \<le> upto_level c its"
  then have "c \<in> set ?S" by auto
  then show "threshold its \<le> c" unfolding eq by (intro Min_le) auto
qed

lemma threshold_below:
  assumes "its \<noteq> []" and "1 \<le> sum_list (map (\<lambda>(c, l, u). u) its)"
    and "sum_list (map (\<lambda>(c, l, u). l) its) \<le> 1"
  shows "below (threshold its) its \<le> 1"
proof -
  let ?lam = "threshold its"
  let ?L = "{c \<in> fst ` set its. c < ?lam}"
  show ?thesis
  proof (cases "?L = {}")
    case True
    then have "\<forall>it\<in>set its. \<not> fst it < ?lam" by auto
    then have "below ?lam its = sum_list (map (\<lambda>(c, l, u). l) its)" by (rule below_bottom)
    with assms show ?thesis by simp
  next
    case False
    let ?m = "Max ?L"
    have fin: "finite ?L" by simp
    have mem: "?m \<in> ?L" using Max_in [OF fin False] .
    then have m_cost: "?m \<in> fst ` set its" and m_less: "?m < ?lam" by auto
    have "\<not> 1 \<le> upto_level ?m its"
    proof
      assume "1 \<le> upto_level ?m its"
      then have "?lam \<le> ?m" using threshold_props(3) [OF assms(1,2) m_cost] by simp
      with m_less show False by simp
    qed
    moreover have "below ?lam its = upto_level ?m its"
    proof (rule below_eq_upto, rule ballI)
      fix it assume it: "it \<in> set its"
      show "(fst it < ?lam) = (fst it \<le> ?m)"
      proof
        assume "fst it < ?lam"
        with it have "fst it \<in> ?L" by auto
        then show "fst it \<le> ?m" using fin by (intro Max_ge)
      next
        assume "fst it \<le> ?m"
        with m_less show "fst it < ?lam" by simp
      qed
    qed
    ultimately show ?thesis by simp
  qed
qed

lemma blend_feasible_optimal:
  assumes ne: "its \<noteq> []" and wf: "wf_items its"
    and lo: "sum_list (map (\<lambda>(c, l, u). l) its) \<le> 1"
    and hi: "1 \<le> sum_list (map (\<lambda>(c, l, u). u) its)"
  shows "in_box its (blend its)" and "sum_list (blend its) = 1"
    and "\<And>y. in_box its y \<Longrightarrow> sum_list y = 1 \<Longrightarrow> cost_of its (blend its) \<le> cost_of its y"
proof -
  let ?lam = "threshold its"
  let ?r = "1 - below ?lam its"
  have r0: "0 \<le> ?r" using threshold_below [OF ne hi lo] by simp
  have "1 \<le> upto_level ?lam its" using threshold_props(1) [OF ne hi] .
  then have r1: "?r \<le> tied ?lam its" by (simp add: upto_below)
  have b: "blend its = fill ?lam ?r its" by (simp add: blend_def Let_def)
  show box: "in_box its (blend its)" unfolding b using r0 wf by (rule fill_box)
  have "sum_list (blend its) = below ?lam its + min ?r (tied ?lam its)"
    unfolding b using r0 wf by (rule fill_sum)
  with r1 show s: "sum_list (blend its) = 1" by (simp add: min_def)
  fix y assume y: "in_box its y" "sum_list y = 1"
  have "split_at ?lam its (blend its)" unfolding b by (rule fill_split)
  from certificate [OF y(1) this] show "cost_of its (blend its) \<le> cost_of its y"
    using s y(2) by simp
qed

lemma box_sums:
  assumes "in_box its y"
  shows "sum_list (map (\<lambda>(c, l, u). l) its) \<le> sum_list y"
    and "sum_list y \<le> sum_list (map (\<lambda>(c, l, u). u) its)"
  using assms unfolding in_box_def
  by (induction its y rule: list_all2_induct) auto

subsection \<open>The program's problem in terms of blends\<close>

lemma sum_list_nth_sum: "sum_list (y :: real list) = (\<Sum>i<length y. y ! i)"
  by (simp add: sum_list_sum_nth atLeast0LessThan)

lemma dot_ones: "length y = n \<Longrightarrow> dot (replicate n 1) y = sum_list y"
proof (induction y arbitrary: n)
  case Nil
  then show ?case by (simp add: dot_def)
next
  case (Cons v y)
  then obtain k where "n = Suc k" "length y = k" by (cases n) auto
  with Cons.IH [of k] show ?case by (simp add: dot_def)
qed

lemma dot_total_cost: "length c = length y \<Longrightarrow> dot c y = total_cost c y"
  by (simp add: dot_def total_cost_def sum_list_nth_sum)

lemma box_nth:
  "length mins = length maxs \<Longrightarrow>
   list_all2 (\<lambda>(l, u) v. l \<le> v \<and> v \<le> u) (zip mins maxs) y \<longleftrightarrow>
   length y = length mins \<and> (\<forall>i<length y. mins ! i \<le> y ! i \<and> y ! i \<le> maxs ! i)"
  by (auto simp: list_all2_conv_all_nth)

lemma lp_feasible_blend:
  assumes "length mins = length mats" and "length maxs = length mats"
  shows "lp_feasible (A_eq mats) b_eq (zip mins maxs) y \<longleftrightarrow> feasible_blend mins maxs y"
proof -
  have len: "length mins = length maxs" using assms by simp
  show ?thesis
  proof (cases "length y = length mats")
    case True
    then have "dot (replicate (length mats) 1) y = (\<Sum>i<length y. y ! i)"
      by (simp add: dot_ones sum_list_nth_sum)
    then show ?thesis
      using True assms by (auto simp: lp_feasible_def feasible_blend_def A_eq_def b_eq_def box_nth [OF len])
  next
    case False
    then show ?thesis
      using assms by (auto simp: lp_feasible_def feasible_blend_def box_nth [OF len])
  qed
qed

lemma in_box_zip:
  "length c = length bounds \<Longrightarrow>
   in_box (zip c bounds) y \<longleftrightarrow> list_all2 (\<lambda>(l, u) v. l \<le> v \<and> v \<le> u) bounds y"
  by (auto simp: in_box_def list_all2_conv_all_nth split: prod.splits)

lemma cost_of_zip:
  "length c = length bounds \<Longrightarrow> length bounds = length y \<Longrightarrow> cost_of (zip c bounds) y = dot c y"
  by (induction c bounds y rule: list_induct3) (auto simp: cost_of_def dot_def)

lemma lower_sum_zip:
  "length c = length bounds \<Longrightarrow>
   sum_list (map (\<lambda>(c, l, u). l) (zip c bounds)) = sum_list (map fst bounds)"
  by (induction c bounds rule: list_induct2) auto

lemma upper_sum_zip:
  "length c = length bounds \<Longrightarrow>
   sum_list (map (\<lambda>(c, l, u). u) (zip c bounds)) = sum_list (map snd bounds)"
  by (induction c bounds rule: list_induct2) auto

lemma in_box_wf: "in_box its y \<Longrightarrow> wf_items its"
  unfolding in_box_def wf_items_def
  by (induction its y rule: list_all2_induct) auto

lemma ones_feasible:
  assumes "length bounds = length c"
  shows "lp_feasible [replicate (length c) 1] [1] bounds y \<longleftrightarrow>
         in_box (zip c bounds) y \<and> sum_list y = 1"
proof -
  have "list_all2 (\<lambda>(l, u) v. l \<le> v \<and> v \<le> u) bounds y \<Longrightarrow> length y = length c"
    using assms by (auto dest: list_all2_lengthD)
  then show ?thesis
    using assms by (auto simp: lp_feasible_def in_box_zip dot_ones)
qed

lemma blend_lp_optimal:
  assumes "c \<noteq> []" and "length bounds = length c" and "wf_items (zip c bounds)"
    and "sum_list (map fst bounds) \<le> 1" and "1 \<le> sum_list (map snd bounds)"
  shows "lp_optimal c [replicate (length c) 1] [1] bounds (blend (zip c bounds))"
proof -
  let ?its = "zip c bounds"
  have ne: "?its \<noteq> []" using assms by (cases c; cases bounds) auto
  have lo: "sum_list (map (\<lambda>(c, l, u). l) ?its) \<le> 1"
    using assms by (simp add: lower_sum_zip)
  have hi: "1 \<le> sum_list (map (\<lambda>(c, l, u). u) ?its)"
    using assms by (simp add: upper_sum_zip)
  note b = blend_feasible_optimal [OF ne assms(3) lo hi]
  have len: "length (blend ?its) = length c"
    using b(1) assms by (auto simp: in_box_def dest: list_all2_lengthD)
  have "dot c (blend ?its) \<le> dot c z" if "lp_feasible [replicate (length c) 1] [1] bounds z" for z
  proof -
    from that have z: "in_box ?its z" "sum_list z = 1"
      using assms by (simp_all add: ones_feasible)
    then have "length z = length c"
      using assms by (auto simp: in_box_def dest: list_all2_lengthD)
    with b(3) [OF z] len show ?thesis using assms by (simp add: cost_of_zip)
  qed
  with b(1,2) show ?thesis
    using assms by (simp add: lp_optimal_def ones_feasible)
qed

lemma feasible_sums:
  assumes "lp_feasible [replicate (length c) 1] [1] bounds y" and "length bounds = length c"
  shows "wf_items (zip c bounds) \<and> sum_list (map fst bounds) \<le> 1 \<and> 1 \<le> sum_list (map snd bounds)"
proof -
  from assms have y: "in_box (zip c bounds) y" "sum_list y = 1"
    by (simp_all add: ones_feasible)
  from box_sums [OF y(1)] y(2) in_box_wf [OF y(1)] show ?thesis
    using assms by (simp add: lower_sum_zip upper_sum_zip)
qed

text \<open>The contract can be met: the threshold solver meets it on every problem the
  program poses.\<close>

lemma blend_linprog_contract: "linprog_contract blend_linprog c (A_eq mats) b_eq bounds"
proof (cases "length mats = length c")
  case False
  then show ?thesis
    by (simp add: linprog_contract_def blend_linprog_def A_eq_def)
next
  case True
  show ?thesis
  proof (cases "length bounds = length c \<and> c \<noteq> []")
    case False
    then show ?thesis using True
      by (auto simp: linprog_contract_def blend_linprog_def A_eq_def)
  next
    case shape: True
    show ?thesis
    proof (cases "wf_items (zip c bounds) \<and> sum_list (map fst bounds) \<le> 1 \<and>
                  1 \<le> sum_list (map snd bounds)")
      case True
      then have "lp_optimal c [replicate (length c) 1] [1] bounds (blend (zip c bounds))"
        using shape by (intro blend_lp_optimal) auto
      then show ?thesis using True shape \<open>length mats = length c\<close>
        by (auto simp: linprog_contract_def blend_linprog_def A_eq_def b_eq_def)
    next
      case False
      then have "\<not> lp_optimal c [replicate (length c) 1] [1] bounds y" for y
        using feasible_sums [of c bounds y] shape by (auto simp: lp_optimal_def)
      then show ?thesis using False shape \<open>length mats = length c\<close>
        by (auto simp: linprog_contract_def blend_linprog_def A_eq_def b_eq_def)
    qed
  qed
qed

subsection \<open>optimize\_cost under the contract\<close>

lemma optimize_cost_failure:
  "lp prices (A_eq mats) b_eq (zip mins maxs) = Inr res \<Longrightarrow> \<not> res_success res \<Longrightarrow>
   optimize_cost lp mats prices mins maxs = Inr (None, None)"
  by (simp add: optimize_cost_def)

lemma optimize_cost_success:
  "lp prices (A_eq mats) b_eq (zip mins maxs) = Inr res \<Longrightarrow> res_success res \<Longrightarrow>
   optimize_cost lp mats prices mins maxs = Inr (res_x res, res_fun res)"
  by (simp add: optimize_cost_def)

lemma show_results_None: "show_results ratios_ref prices (None, mc) = Inr Optimization_failed"
  by (simp add: show_results_def)

lemma contract_call:
  assumes "linprog_contract lp prices (A_eq mats) b_eq (zip mins maxs)"
    and "same_lengths mats prices mins maxs"
  shows "\<exists>res. lp prices (A_eq mats) b_eq (zip mins maxs) = Inr res \<and>
           (res_success res \<longrightarrow>
              (\<exists>xs. res_x res = Some xs \<and> res_fun res = Some (dot prices xs) \<and>
                    lp_optimal prices (A_eq mats) b_eq (zip mins maxs) xs))"
proof -
  from assms(2) have "prices \<noteq> []" "\<not> list_ex (\<lambda>row. length row \<noteq> length prices) (A_eq mats)"
    "length b_eq = length (A_eq mats)" "length (zip mins maxs) = length prices"
    by (auto simp: same_lengths_def A_eq_def b_eq_def)
  with assms(1) show ?thesis
    unfolding linprog_contract_def by auto
qed

lemma lp_optimal_blend:
  assumes "same_lengths mats prices mins maxs"
  shows "lp_optimal prices (A_eq mats) b_eq (zip mins maxs) xs \<longleftrightarrow>
         feasible_blend mins maxs xs \<and>
         (\<forall>y. feasible_blend mins maxs y \<longrightarrow> total_cost prices xs \<le> total_cost prices y)"
proof -
  have l: "length mins = length mats" "length maxs = length mats" "length prices = length mins"
    using assms by (simp_all add: same_lengths_def)
  have d: "dot prices y = total_cost prices y" if "feasible_blend mins maxs y" for y
    using that l by (intro dot_total_cost) (simp add: feasible_blend_def)
  show ?thesis
    unfolding lp_optimal_def lp_feasible_blend [OF l(1,2)] using d by auto
qed

text \<open>A vector returned by \<^verbatim>\<open>optimize_cost\<close> is an optimal blend, and the cost returned
  with it is its cost.\<close>

lemma successful_solve:
  assumes "linprog_contract lp prices (A_eq mats) b_eq (zip mins maxs)"
    and "same_lengths mats prices mins maxs"
    and "optimize_cost lp mats prices mins maxs = Inr (Some xs, fo)"
  shows "fo = Some (total_cost prices xs)"
    and "feasible_blend mins maxs xs"
    and "\<And>y. feasible_blend mins maxs y \<Longrightarrow> total_cost prices xs \<le> total_cost prices y"
proof -
  from assms(1,2) obtain res where res: "lp prices (A_eq mats) b_eq (zip mins maxs) = Inr res"
    and ok: "res_success res \<Longrightarrow>
           \<exists>xs. res_x res = Some xs \<and> res_fun res = Some (dot prices xs) \<and>
                lp_optimal prices (A_eq mats) b_eq (zip mins maxs) xs"
    using contract_call by blast
  have s: "res_success res"
    using assms(3) res by (auto simp: optimize_cost_def split: if_splits)
  with assms(3) res have "res_x res = Some xs" "res_fun res = fo"
    by (simp_all add: optimize_cost_def)
  with ok [OF s] have fo: "fo = Some (dot prices xs)"
    and opt: "lp_optimal prices (A_eq mats) b_eq (zip mins maxs) xs" by auto
  from opt show fb: "feasible_blend mins maxs xs"
    and "\<And>y. feasible_blend mins maxs y \<Longrightarrow> total_cost prices xs \<le> total_cost prices y"
    by (simp_all add: lp_optimal_blend [OF assms(2)])
  have "length prices = length xs"
    using fb assms(2) by (simp add: feasible_blend_def same_lengths_def)
  with fo show "fo = Some (total_cost prices xs)" by (simp add: dot_total_cost)
qed


text \<open>The equality row has as many columns as the list \<^verbatim>\<open>materials\<close> has entries. When
  the prices are not as many, \<^verbatim>\<open>linprog\<close> rejects the call and the exception leaves
  \<^verbatim>\<open>optimize_cost\<close>.\<close>

lemma optimize_cost_length_mismatch:
  assumes "linprog_contract lp prices (A_eq mats) b_eq (zip mins maxs)"
    and "prices \<noteq> []" and "length prices \<noteq> length mats"
  shows "optimize_cost lp mats prices mins maxs = Inl ValueError"
  using assms by (simp add: linprog_contract_def optimize_cost_def A_eq_def)

text \<open>For as many prices, minima and maxima as there are materials, the call returns a
  pair: the failure pair, or a vector of that length with its cost.\<close>

lemma solve_returns_pair:
  assumes "linprog_contract lp prices (A_eq mats) b_eq (zip mins maxs)"
    and "same_lengths mats prices mins maxs"
  shows "optimize_cost lp mats prices mins maxs = Inr (None, None) \<or>
         (\<exists>xs f. optimize_cost lp mats prices mins maxs = Inr (Some xs, Some f) \<and>
                 length xs = length mats)"
proof -
  from assms obtain res where res: "lp prices (A_eq mats) b_eq (zip mins maxs) = Inr res"
    and ok: "res_success res \<Longrightarrow>
           \<exists>xs. res_x res = Some xs \<and> res_fun res = Some (dot prices xs) \<and>
                lp_optimal prices (A_eq mats) b_eq (zip mins maxs) xs"
    using contract_call by blast
  show ?thesis
  proof (cases "res_success res")
    case False
    with res show ?thesis by (simp add: optimize_cost_failure)
  next
    case True
    from ok [OF True] obtain xs where xs: "res_x res = Some xs" "res_fun res = Some (dot prices xs)"
      "lp_optimal prices (A_eq mats) b_eq (zip mins maxs) xs" by blast
    have "optimize_cost lp mats prices mins maxs = Inr (res_x res, res_fun res)"
      using res True by (rule optimize_cost_success)
    moreover have "length xs = length mats"
      using xs(3) assms(2) by (simp add: lp_optimal_blend feasible_blend_def same_lengths_def)
    ultimately show ?thesis using xs by simp
  qed
qed

subsection \<open>Example inputs\<close>

lemma example_inputs:
  "prices_of [a, b] example_ui = [10, 2]"
  "min_ratios_of [a, b] example_ui = [0, 0]"
  "max_ratios_of [a, b] example_ui = [1, 1]"
  by (simp_all add: prices_of_def min_ratios_of_def max_ratios_of_def example_ui_def upt_rec)

lemma length_materials: "length materials = 7"
  by (simp add: materials_def)

lemma materials_nonempty: "materials \<noteq> []"
  by (simp add: materials_def)




subsection \<open>The script on its initial widget values\<close>

text \<open>With the July prices and the July recipe five points down and up, the threshold
  solver moves ten points each into the three cheapest materials that have room; the
  blend costs 102.39 against 119.35 for the July recipe.\<close>

lemma default_inputs:
  "prices_of materials default_ui = prices_july"
  "min_ratios_of materials default_ui = [0.391, 0.177, 0.068, 0, 0.023, 0, 0.041]"
  "max_ratios_of materials default_ui = [0.491, 0.277, 0.168, 0.05, 0.123, 0.1, 0.141]"
  by (simp_all add: prices_of_def min_ratios_of_def max_ratios_of_def default_ui_def
      materials_def prices_july_def ratios_july_def upt_rec)

lemma default_solve:
  "run_optimization blend_linprog materials default_ui =
     Inr (Some [0.391, 0.277, 0.068, 0, 0.123, 0.1, 0.041], Some 102.38926)"
  unfolding run_optimization_def default_inputs
  by (simp add: optimize_cost_def blend_linprog_def A_eq_def b_eq_def wf_items_def blend_def
      threshold_def upto_level_def below_def dot_def materials_def prices_july_def)

lemma default_run:
  "script blend_linprog materials ratios_july default_ui =
     Inr (Comparison_shown
           \<lparr>current_cost = 119.35426, min_cost = 102.38926, savings = 16.965,
            current_cost_breakdown = [99.4896, 4.32889, 4.63858, 0, 1.05923, 0.0045, 9.83346],
            optimal_cost_breakdown = [88.2096, 5.28239, 2.67308, 0, 1.78473, 0.009, 4.43046]\<rparr>)"
  unfolding script_def default_solve default_inputs
  by (simp add: show_results_def compare_costs_def calculate_cost_def np_dot_def np_mul_def
      prices_july_def ratios_july_def)

section \<open>The claims\<close>




text \<open>
  C2. Whenever the solve returns a vector, that vector is a blend within the bounds, no
  blend within the bounds costs less (none has a strictly lower
  \<open>\<Sum> cost[i] x[i]\<close>), and the cost returned with it is \<open>\<Sum> cost[i] x*[i]\<close>.
\<close>

theorem returned_blend_is_cost_optimal:
  assumes "linprog_contract lp prices (A_eq mats) b_eq (zip mins maxs)"
    and "same_lengths mats prices mins maxs"
    and "optimize_cost lp mats prices mins maxs = Inr (Some xs, fo)"
  shows "feasible_blend mins maxs xs \<and>
         (\<forall>y. feasible_blend mins maxs y \<longrightarrow> \<not> total_cost prices y < total_cost prices xs) \<and>
         fo = Some (total_cost prices xs)"
  using successful_solve [OF assms] by (auto simp: not_less)

theorem returned_blend_is_cost_optimal_witness:
  "optimize_cost blend_linprog [''A'', ''B'', ''C''] [10, 2, 2] [0.1, 0, 0.2] [1, 0.5, 1]
     = Inr (Some [0.1, 0.5, 0.4], Some 2.8) \<and>
   feasible_blend [0.1, 0, 0.2] [1, 0.5, 1] [0.1, 0.5, 0.4] \<and>
   Some 2.8 = Some (total_cost [10, 2, 2] [0.1, 0.5, 0.4])"
proof -
  have r: "optimize_cost blend_linprog [''A'', ''B'', ''C''] [10, 2, 2] [0.1, 0, 0.2] [1, 0.5, 1]
     = Inr (Some [0.1, 0.5, 0.4], Some 2.8)"
    by (simp add: optimize_cost_def blend_linprog_def A_eq_def b_eq_def wf_items_def blend_def
        threshold_def upto_level_def below_def dot_def)
  have s: "same_lengths [''A'', ''B'', ''C''] [10, 2, 2] [0.1, 0, 0.2] [1, 0.5, 1 :: real]"
    by (simp add: same_lengths_def)
  from returned_blend_is_cost_optimal [OF blend_linprog_contract s r] r show ?thesis by simp
qed

text \<open>
  C3. Whenever the solve returns a vector, its components sum to 1; in the exact
  arithmetic of the embedding the sum is 1, so it is within \<open>10\<^sup>-\<^sup>6\<close> of 1.
\<close>

theorem returned_blend_sums_to_one:
  assumes "linprog_contract lp prices (A_eq mats) b_eq (zip mins maxs)"
    and "same_lengths mats prices mins maxs"
    and "optimize_cost lp mats prices mins maxs = Inr (Some xs, fo)"
  shows "length xs = length mats \<and> \<bar>(\<Sum>i<length xs. xs ! i) - 1\<bar> \<le> 1 / 10 ^ 6 \<and>
         (\<Sum>i<length xs. xs ! i) = 1"
proof -
  from successful_solve(2) [OF assms]
  have len: "length xs = length mins" and one: "(\<Sum>i<length xs. xs ! i) = 1"
    unfolding feasible_blend_def by blast+
  from len assms(2) have "length xs = length mats" by (simp add: same_lengths_def)
  moreover from one have "\<bar>(\<Sum>i<length xs. xs ! i) - 1\<bar> \<le> 1 / 10 ^ 6" by simp
  ultimately show ?thesis using one by blast
qed

theorem returned_blend_sums_to_one_witness:
  "optimize_cost blend_linprog [''A'', ''B'', ''C''] [4, 4, 1] [0.25, 0, 0] [1, 1, 0.5]
     = Inr (Some [0.5, 0, 0.5], Some 2.5) \<and>
   length [0.5, 0, 0.5 :: real] = length [''A'', ''B'', ''C''] \<and>
   (\<Sum>i<length [0.5, 0, 0.5 :: real]. [0.5, 0, 0.5 :: real] ! i) = 1"
proof -
  have r: "optimize_cost blend_linprog [''A'', ''B'', ''C''] [4, 4, 1] [0.25, 0, 0] [1, 1, 0.5]
     = Inr (Some [0.5, 0, 0.5], Some 2.5)"
    by (simp add: optimize_cost_def blend_linprog_def A_eq_def b_eq_def wf_items_def blend_def
        threshold_def upto_level_def below_def dot_def)
  have s: "same_lengths [''A'', ''B'', ''C''] [4, 4, 1] [0.25, 0, 0] [1, 1, 0.5 :: real]"
    by (simp add: same_lengths_def)
  from returned_blend_sums_to_one [OF blend_linprog_contract s r] r show ?thesis by simp
qed

text \<open>
  C4. Whenever the solve returns a vector, every component lies between its material's
  minimum and maximum; where the two are equal, the component is exactly that value.
\<close>

theorem returned_blend_respects_bounds:
  assumes "linprog_contract lp prices (A_eq mats) b_eq (zip mins maxs)"
    and "same_lengths mats prices mins maxs"
    and "optimize_cost lp mats prices mins maxs = Inr (Some xs, fo)"
  shows "length xs = length mats \<and>
         (\<forall>i<length mats. mins ! i \<le> xs ! i \<and> xs ! i \<le> maxs ! i \<and>
            (\<forall>v. mins ! i = v \<and> maxs ! i = v \<longrightarrow> xs ! i = v))"
  using successful_solve(2) [OF assms] assms(2)
  by (auto simp: feasible_blend_def same_lengths_def)

theorem returned_blend_respects_bounds_witness:
  "optimize_cost blend_linprog [''A'', ''B'', ''C''] [10, 2, 5] [0.3, 0, 0.2] [0.3, 1, 0.2]
     = Inr (Some [0.3, 0.5, 0.2], Some 5) \<and>
   length [0.3, 0.5, 0.2 :: real] = length [''A'', ''B'', ''C''] \<and>
   [0.3, 0, 0.2] ! 0 = [0.3, 1, 0.2 :: real] ! 0 \<and> [0.3, 0.5, 0.2] ! 0 = [0.3, 0, 0.2 :: real] ! 0"
proof -
  have r: "optimize_cost blend_linprog [''A'', ''B'', ''C''] [10, 2, 5] [0.3, 0, 0.2] [0.3, 1, 0.2]
     = Inr (Some [0.3, 0.5, 0.2], Some 5)"
    by (simp add: optimize_cost_def blend_linprog_def A_eq_def b_eq_def wf_items_def blend_def
        threshold_def upto_level_def below_def dot_def)
  have s: "same_lengths [''A'', ''B'', ''C''] [10, 2, 5] [0.3, 0, 0.2] [0.3, 1, 0.2 :: real]"
    by (simp add: same_lengths_def)
  from returned_blend_respects_bounds [OF blend_linprog_contract s r] r show ?thesis by simp
qed

text \<open>
  C5 (amended). \<^verbatim>\<open>optimize_cost\<close> takes the number of materials from the module's list
  \<^verbatim>\<open>materials\<close>, which has seven entries, not from its arguments. Called with seven
  prices, seven minima and seven maxima it returns, without raising, either the failure
  pair or a vector of seven proportions with its cost. Called with any other number of
  prices, at least one, the call raises \<^verbatim>\<open>ValueError\<close>: the equality row has seven
  columns and the solver rejects it. The function raises nothing of its own and catches
  nothing: it raises exactly when the solver does. The solver is any \<open>lp\<close> that meets
  \<open>linprog_contract\<close> on the call made.
\<close>

theorem solve_takes_material_count_from_module_list:
  assumes "linprog_contract lp prices (A_eq materials) b_eq (zip mins maxs)"
    and "prices \<noteq> []"
  shows "(length prices = 7 \<and> length mins = 7 \<and> length maxs = 7 \<longrightarrow>
            optimize_cost lp materials prices mins maxs = Inr (None, None) \<or>
            (\<exists>xs f. optimize_cost lp materials prices mins maxs = Inr (Some xs, Some f) \<and>
                    length xs = 7)) \<and>
         (length prices \<noteq> 7 \<longrightarrow> optimize_cost lp materials prices mins maxs = Inl ValueError) \<and>
         (optimize_cost lp materials prices mins maxs = Inl e \<longleftrightarrow>
            lp prices (A_eq materials) b_eq (zip mins maxs) = Inl e)"
proof (intro conjI impI)
  show "optimize_cost lp materials prices mins maxs = Inl e \<longleftrightarrow>
          lp prices (A_eq materials) b_eq (zip mins maxs) = Inl e"
    by (simp add: optimize_cost_def split: sum.splits)
next
  assume "length prices = 7 \<and> length mins = 7 \<and> length maxs = 7"
  then have "same_lengths materials prices mins maxs"
    by (simp add: same_lengths_def length_materials materials_nonempty)
  from solve_returns_pair [OF assms(1) this]
  show "optimize_cost lp materials prices mins maxs = Inr (None, None) \<or>
        (\<exists>xs f. optimize_cost lp materials prices mins maxs = Inr (Some xs, Some f) \<and>
                length xs = 7)"
    by (simp add: length_materials)
next
  assume "length prices \<noteq> 7"
  then have "length prices \<noteq> length materials" by (simp add: length_materials)
  with assms show "optimize_cost lp materials prices mins maxs = Inl ValueError"
    by (intro optimize_cost_length_mismatch)
qed

theorem solve_takes_material_count_from_module_list_witness:
  "optimize_cost blend_linprog materials prices_july
       (min_ratios_of materials default_ui) (max_ratios_of materials default_ui)
     = Inr (Some [0.391, 0.277, 0.068, 0, 0.123, 0.1, 0.041], Some 102.38926) \<and>
   length [0.391, 0.277, 0.068, 0, 0.123, 0.1, 0.041 :: real] = 7 \<and>
   optimize_cost blend_linprog materials [10, 2, 5, 1] [0, 0, 0, 0] [1, 1, 1, 1] = Inl ValueError"
proof -
  have r: "optimize_cost blend_linprog materials prices_july
       (min_ratios_of materials default_ui) (max_ratios_of materials default_ui)
     = Inr (Some [0.391, 0.277, 0.068, 0, 0.123, 0.1, 0.041], Some 102.38926)"
    using default_solve by (simp add: run_optimization_def default_inputs)
  have n: "prices_july \<noteq> []" "[10, 2, 5, 1 :: real] \<noteq> []" by (simp_all add: prices_july_def)
  have l: "length [10, 2, 5, 1 :: real] \<noteq> 7" by simp
  from solve_takes_material_count_from_module_list
         [OF blend_linprog_contract n(2), of "[0, 0, 0, 0]" "[1, 1, 1, 1]"] l
  have "optimize_cost blend_linprog materials [10, 2, 5, 1] [0, 0, 0, 0] [1, 1, 1, 1] = Inl ValueError"
    by blast
  with solve_takes_material_count_from_module_list
         [OF blend_linprog_contract n(1),
          of "min_ratios_of materials default_ui" "max_ratios_of materials default_ui"] r
  show ?thesis by simp
qed

text \<open>The claim as it was stated, any number of materials and no exception, fails on the
  program: with one price or with three, the row of seven ones does not fit and the call
  raises.\<close>

theorem other_material_counts_raise_counterexample:
  "length materials = 7 \<and>
   linprog_contract blend_linprog [3] (A_eq materials) b_eq (zip [0] [1]) \<and>
   optimize_cost blend_linprog materials [3] [0] [1] = Inl ValueError \<and>
   linprog_contract blend_linprog [10, 2, 5] (A_eq materials) b_eq (zip [0, 0, 0] [1, 1, 1]) \<and>
   optimize_cost blend_linprog materials [10, 2, 5] [0, 0, 0] [1, 1, 1] = Inl ValueError"
  by (simp add: blend_linprog_contract length_materials)
     (simp add: optimize_cost_def blend_linprog_def A_eq_def materials_def)




text \<open>
  C7. When the solver does not report success, \<^verbatim>\<open>optimize_cost\<close> returns the pair of
  \<^verbatim>\<open>None\<close> and the page shows the failure message and no figure, also when the solver's
  result holds a vector (a last iterate). A vector is handed to the caller only from a
  result that reports success.
\<close>

theorem no_partial_result_on_failure:
  assumes "lp (prices_of mats ui) (A_eq mats) b_eq
             (zip (min_ratios_of mats ui) (max_ratios_of mats ui)) = Inr res"
  shows "(\<not> res_success res \<longrightarrow>
            run_optimization lp mats ui = Inr (None, None) \<and>
            script lp mats ratios_ref ui = Inr Optimization_failed) \<and>
         (\<forall>xs fo. run_optimization lp mats ui = Inr (Some xs, fo) \<longrightarrow>
            res_success res \<and> res_x res = Some xs \<and> res_fun res = fo)"
  using assms
  by (auto simp: run_optimization_def script_def optimize_cost_def show_results_def
      split: if_splits)

theorem no_partial_result_on_failure_witness:
  "res_x (projr (failing_iteration_limit (prices_of [''A'', ''B''] example_ui) (A_eq [''A'', ''B'']) b_eq
       (zip (min_ratios_of [''A'', ''B''] example_ui) (max_ratios_of [''A'', ''B''] example_ui))))
     = Some [0, 0] \<and>
   run_optimization failing_iteration_limit [''A'', ''B''] example_ui = Inr (None, None) \<and>
   script failing_iteration_limit [''A'', ''B''] [50, 50] example_ui = Inr Optimization_failed"
  using no_partial_result_on_failure [of failing_iteration_limit "[''A'', ''B'']" example_ui _ "[50, 50]"]
  by (simp add: failing_iteration_limit_def example_inputs)




text \<open>
  C9. Two runs whose widgets give the same prices, minima and maxima for every material
  make the same call of \<^verbatim>\<open>optimize_cost\<close> and show the same page, whatever the strength
  and fineness sliders say in either run: the same outcome, the same optimal cost and the
  same optimal vector.
\<close>

theorem targets_have_no_influence:
  assumes "\<forall>i<length mats. price_input u1 i = price_input u2 i \<and>
             min_input u1 i = min_input u2 i \<and> max_input u1 i = max_input u2 i"
  shows "run_optimization lp mats u1 = run_optimization lp mats u2 \<and>
         script lp mats ratios_ref u1 = script lp mats ratios_ref u2"
proof -
  have "prices_of mats u1 = prices_of mats u2" "min_ratios_of mats u1 = min_ratios_of mats u2"
    "max_ratios_of mats u1 = max_ratios_of mats u2"
    using assms by (simp_all add: prices_of_def min_ratios_of_def max_ratios_of_def)
  then show ?thesis by (simp add: run_optimization_def script_def cong: sum.case_cong)
qed

theorem targets_have_no_influence_witness:
  "strength_target example_ui \<noteq> strength_target example_ui' \<and>
   fineness_target example_ui \<noteq> fineness_target example_ui' \<and>
   run_optimization blend_linprog [''A'', ''B''] example_ui =
     run_optimization blend_linprog [''A'', ''B''] example_ui' \<and>
   script blend_linprog [''A'', ''B''] [50, 50] example_ui =
     script blend_linprog [''A'', ''B''] [50, 50] example_ui'"
  using targets_have_no_influence [of "[''A'', ''B'']" example_ui example_ui' blend_linprog "[50, 50]"]
  by (simp add: example_ui'_def example_ui_def)

text \<open>
  C10. Whenever the solver does not report success, whatever its status code (infeasible,
  iteration limit, numerical trouble) and whatever its result holds, \<^verbatim>\<open>optimize_cost\<close>
  returns the same pair of \<^verbatim>\<open>None\<close>; two failing solvers cannot be told apart from the
  return value, and the caller shows the one failure message for it.
\<close>

theorem failure_causes_indistinguishable:
  assumes "lp1 prices (A_eq mats) b_eq (zip mins maxs) = Inr r1"
    and "lp2 prices (A_eq mats) b_eq (zip mins maxs) = Inr r2"
    and "\<not> res_success r1" and "\<not> res_success r2"
  shows "optimize_cost lp1 mats prices mins maxs = Inr (None, None) \<and>
         optimize_cost lp2 mats prices mins maxs = optimize_cost lp1 mats prices mins maxs \<and>
         show_results ratios_ref prices (None, None) = Inr Optimization_failed"
  using assms by (simp add: optimize_cost_failure show_results_None)

theorem failure_causes_indistinguishable_witness:
  "res_status (projr (failing_infeasible [10, 2] (A_eq [''A'', ''B'']) b_eq (zip [0.6, 0.6] [1, 1]))) = 2 \<and>
   res_status (projr (failing_iteration_limit [10, 2] (A_eq [''A'', ''B'']) b_eq (zip [0.6, 0.6] [1, 1]))) = 1 \<and>
   optimize_cost failing_infeasible [''A'', ''B''] [10, 2] [0.6, 0.6] [1, 1] = Inr (None, None) \<and>
   optimize_cost failing_iteration_limit [''A'', ''B''] [10, 2] [0.6, 0.6] [1, 1] =
     optimize_cost failing_infeasible [''A'', ''B''] [10, 2] [0.6, 0.6] [1, 1] \<and>
   show_results [50, 50] [10, 2] (None, None) = Inr Optimization_failed"
  using failure_causes_indistinguishable
          [of failing_infeasible "[10, 2]" "[''A'', ''B'']" "[0.6, 0.6]" "[1, 1]" _
              failing_iteration_limit _ "[50, 50]"]
  by (simp add: failing_infeasible_def failing_iteration_limit_def)

end
